theory Spec2Isabelle
  imports Main "HOL-Library.Word"
begin

section \<open>The gateway client of websocket/client.go\<close>

text \<open>
  The client is a set of goroutines around one mutable \<open>Client\<close> struct. Each method is
  embedded as a function from the struct (and the inputs the environment supplies: the clock,
  the transport's answers) to the updated struct and the list of the effects the method has
  on its surroundings, in program order: sends on the channels, calls on the transport,
  goroutines started, timers waited for. A send on a channel is recorded when it is made;
  who receives it, and when, is outside the model, as is logging.
\<close>

subsection \<open>Data\<close>

type_synonym uint = "64 word"
type_synonym int64 = "64 word"
type_synonym uint8 = "8 word"
type_synonym bytes = "8 word list"

text \<open>
  A \<open>time.Time\<close> is an instant, counted in nanoseconds; a \<open>time.Duration\<close> is a signed
  64-bit count of nanoseconds, read here as the integer it denotes.
\<close>

type_synonym time = int
type_synonym duration = int

datatype error =
  Already_connected
| Already_disconnected
| Not_connected
| Unsupported_command string
| Rate_limited
| Too_many_reconnect_attempts
| Collaborator_error string

record Config =
  Token :: string
  Endpoint :: string
  Version :: int
  Browser :: string
  Device :: string
  GuildLargeThreshold :: uint
  ShardID :: uint
  ShardCount :: uint

record Event =
  evt_Name :: string
  evt_Data :: bytes

text \<open>
  The \<open>interface{}\<close> payload of an outbound packet: \<open>nil\<close>, the sequence number of a
  heartbeat, the anonymous structs built by \<open>sendHelloPacket\<close> and \<open>sendIdentityPacket\<close>
  (the latter with token, os, browser, device, compress, large threshold and shard), or
  anything else a caller of \<open>Emit\<close> hands over.
\<close>

datatype payload =
  Nil_payload
| Uint_payload uint
| Resume_payload string string uint
| Identify_payload string string string string bool uint "(uint \<times> uint) option"
| Other_payload bytes

record clientPacket =
  cp_Op :: uint
  cp_Data :: payload

text \<open>
  The fields of \<open>discordPacket\<close> that the client reads. The struct is declared elsewhere in
  the package; \<open>SequenceNumber\<close> is compared with the \<open>uint\<close> counter of the client.
\<close>

record discordPacket =
  pkt_Op :: uint
  pkt_SequenceNumber :: uint
  pkt_EventName :: string
  pkt_Data :: bytes

record 'r Client =
  conf :: Config
  lastRestart :: int64
  trackedEvents :: "string list"
  heartbeatInterval :: uint
  heartbeatLatency :: duration
  lastHeartbeatAck :: time
  sessionID :: string
  trace :: "string list"
  sequenceNumber :: uint
  ratelimit :: 'r
  pulsating :: uint8
  disconnected :: bool
  haveConnectedOnce :: bool
  timeoutMultiplier :: int

text \<open>
  What client.go takes from packages that are not part of these sources, as parameters:
  the command and event names of \<open>event\<close> and \<open>cmd\<close>, the operation codes of \<open>opcode\<close>,
  \<open>runtime.GOOS\<close>, the rate limiter's \<open>Request\<close> (on a limiter state \<open>'r\<close>), and
  \<open>httd.Unmarshal\<close> at the two structs it is used with: what it leaves in
  \<open>helloPacket.HeartbeatInterval\<close>, and in \<open>readyPacket.SessionID\<close> and \<open>.Trace\<close>
  (client.go uses the struct whether or not the call reports an error).
\<close>

record 'r deps =
  event_Shutdown :: string
  event_Close :: string
  event_Heartbeat :: string
  event_Identify :: string
  event_Resume :: string
  event_Ready :: string
  cmd_RequestGuildMembers :: string
  cmd_UpdateVoiceState :: string
  cmd_UpdateStatus :: string
  opcode_Shutdown :: uint
  opcode_Close :: uint
  opcode_DiscordEvent :: uint
  opcode_Heartbeat :: uint
  opcode_Identify :: uint
  opcode_Resume :: uint
  opcode_Reconnect :: uint
  opcode_RequestGuildMembers :: uint
  opcode_VoiceStateUpdate :: uint
  opcode_StatusUpdate :: uint
  opcode_InvalidSession :: uint
  opcode_Hello :: uint
  opcode_HeartbeatAck :: uint
  GOOS :: string
  Request :: "'r \<Rightarrow> string \<Rightarrow> bool \<times> 'r"
  unmarshal_hello :: "bytes \<Rightarrow> uint"
  unmarshal_ready :: "bytes \<Rightarrow> string \<times> string list"

subsection \<open>Effects\<close>

datatype fiber =
  Fiber_receiver
| Fiber_emitter
| Fiber_reconnect
| Fiber_pulsate
| Fiber_invalid_session
| Fiber_watchdog time time

text \<open>
  \<open>After d\<close> is a completed \<open><-time.After(d)\<close>; \<open>After_shutdown d\<close> is a \<open>select\<close> between
  that timer and the shutdown channel which the shutdown channel won. \<open>Enter_reconnect\<close>
  marks a call of \<open>reconnect\<close>, so that a call that returns at once is still visible.
\<close>

datatype action =
  Send_eventChan Event
| Send_emitChan clientPacket
| Send_restart
| Go fiber
| Conn_Open string
| Conn_Close
| Conn_WriteJSON clientPacket
| After duration
| After_shutdown duration
| Enter_reconnect

fun emitted :: "action list \<Rightarrow> clientPacket list" where
  "emitted [] = []"
| "emitted (Send_emitChan cp # as) = cp # emitted as"
| "emitted (a # as) = emitted as"

fun forwarded :: "action list \<Rightarrow> Event list" where
  "forwarded [] = []"
| "forwarded (Send_eventChan e # as) = e # forwarded as"
| "forwarded (a # as) = forwarded as"

fun on_transport :: "action \<Rightarrow> bool" where
  "on_transport (Conn_Open u) = True"
| "on_transport Conn_Close = True"
| "on_transport (Conn_WriteJSON cp) = True"
| "on_transport a = False"

definition Second :: duration where
  "Second = 1000000000"

definition Millisecond :: duration where
  "Millisecond = 1000000"

subsection \<open>Emit\<close>

text \<open>The \<open>switch\<close> of \<open>Emit\<close>: the first case that equals the command gives the opcode.\<close>

definition command_opcode :: "'r deps \<Rightarrow> string \<Rightarrow> uint option" where
  "command_opcode d command =
     (if command = event_Shutdown d then Some (opcode_Shutdown d)
      else if command = event_Close d then Some (opcode_Close d)
      else if command = event_Heartbeat d then Some (opcode_Heartbeat d)
      else if command = event_Identify d then Some (opcode_Identify d)
      else if command = event_Resume d then Some (opcode_Resume d)
      else if command = cmd_RequestGuildMembers d then Some (opcode_RequestGuildMembers d)
      else if command = cmd_UpdateVoiceState d then Some (opcode_VoiceStateUpdate d)
      else if command = cmd_UpdateStatus d then Some (opcode_StatusUpdate d)
      else None)"

definition Emit ::
  "'r deps \<Rightarrow> 'r Client \<Rightarrow> string \<Rightarrow> payload \<Rightarrow> error option \<times> 'r Client \<times> action list" where
  "Emit d m command data =
     (if \<not> haveConnectedOnce m then (Some Not_connected, m, [])
      else case command_opcode d command of
        None \<Rightarrow> (Some (Unsupported_command command), m, [])
      | Some op \<Rightarrow>
          (let (accepted, rl) = Request d (ratelimit m) command;
               m1 = m\<lparr>ratelimit := rl\<rparr>
           in if \<not> accepted then (Some Rate_limited, m1, [])
              else (None, m1, [Send_emitChan \<lparr>cp_Op = op, cp_Data = data\<rparr>])))"

text \<open>The names the \<open>switch\<close> of \<open>Emit\<close> has a case for, in its order.\<close>

definition command_names :: "'r deps \<Rightarrow> string list" where
  "command_names d =
     [event_Shutdown d, event_Close d, event_Heartbeat d, event_Identify d, event_Resume d,
      cmd_RequestGuildMembers d, cmd_UpdateVoiceState d, cmd_UpdateStatus d]"

text \<open>The same \<open>switch\<close> as a table, each name with the opcode of its case.\<close>

definition command_table :: "'r deps \<Rightarrow> (string \<times> uint) list" where
  "command_table d =
     [(event_Shutdown d, opcode_Shutdown d), (event_Close d, opcode_Close d),
      (event_Heartbeat d, opcode_Heartbeat d), (event_Identify d, opcode_Identify d),
      (event_Resume d, opcode_Resume d),
      (cmd_RequestGuildMembers d, opcode_RequestGuildMembers d),
      (cmd_UpdateVoiceState d, opcode_VoiceStateUpdate d),
      (cmd_UpdateStatus d, opcode_StatusUpdate d)]"

subsection \<open>Disconnect\<close>

text \<open>
  \<open>conn_disconnected\<close> is the answer of \<open>m.conn.Disconnected()\<close>. The result of the inner
  \<open>Emit\<close> is dropped, as in the source.
\<close>

definition Disconnect ::
  "'r deps \<Rightarrow> bool \<Rightarrow> 'r Client \<Rightarrow> error option \<times> 'r Client \<times> action list" where
  "Disconnect d conn_disconnected m =
     (if conn_disconnected \<or> \<not> haveConnectedOnce m
      then (Some Already_disconnected, m\<lparr>disconnected := True\<rparr>, [])
      else
        (let (err, m1, as) = Emit d m (event_Close d) Nil_payload;
             m2 = m1\<lparr>disconnected := True\<rparr>
         in (None, m2,
             as @ [After (Second * 1 * timeoutMultiplier m2), After (Millisecond * 10)])))"

subsection \<open>Connect\<close>

text \<open>
  What the environment answers during one \<open>Connect\<close>: the result of \<open>getGatewayRoute\<close>
  (asked only when the endpoint is empty) and of \<open>m.conn.Open\<close>; and, for the wait that
  \<open>reconnect\<close> makes after a failed attempt, whether the shutdown channel is closed before
  the timer fires.
\<close>

record attempt =
  route_url :: string
  route_err :: "error option"
  open_err :: "error option"
  shutdown_wins :: bool

text \<open>
  The deferred closure of \<open>Connect\<close> receives \<open>err\<close> as an argument, evaluated when the
  \<open>defer\<close> statement runs; \<open>err\<close> is \<open>nil\<close> there, so the closure never closes the
  connection and contributes no effect.
\<close>

definition Connect ::
  "'r deps \<Rightarrow> attempt \<Rightarrow> 'r Client \<Rightarrow> error option \<times> 'r Client \<times> action list" where
  "Connect d at m =
     (if \<not> disconnected m then (Some Already_connected, m, [])
      else
        (let (m1, err) =
               (if Endpoint (conf m) = []
                then (m\<lparr>conf := (conf m)\<lparr>Endpoint := route_url at\<rparr>\<rparr>, route_err at)
                else (m, None))
         in case err of
              Some e \<Rightarrow> (Some e, m1, [])
            | None \<Rightarrow>
                (case open_err at of
                   Some e \<Rightarrow> (Some e, m1, [Conn_Open (Endpoint (conf m1))])
                 | None \<Rightarrow>
                     (None, m1\<lparr>haveConnectedOnce := True, disconnected := False\<rparr>,
                      [Conn_Open (Endpoint (conf m1)), Go Fiber_receiver, Go Fiber_emitter]))))"

subsection \<open>reconnect\<close>

definition maxReconnectTries :: nat where
  "maxReconnectTries = 5"

text \<open>
  \<open>now\<close> is \<open>time.Now().UnixNano()\<close>; the subtraction and the comparison are those of
  \<open>int64\<close>, and \<open>500000000\<close> is \<open>time.Second.Nanoseconds() / 2\<close>.
\<close>

definition lockRestart :: "'r Client \<Rightarrow> int64 \<Rightarrow> bool \<times> 'r Client" where
  "lockRestart m now =
     (let locked = (500000000 <s now - lastRestart m)
      in (locked, if locked then m\<lparr>lastRestart := now\<rparr> else m))"

record reconnect_env =
  env_now :: int64
  env_conn_disconnected :: bool
  env_attempt :: "nat \<Rightarrow> attempt"

text \<open>
  The \<open>for\<close> loop of \<open>reconnect\<close>, from the value \<open>try\<close> of its counter; \<open>err\<close> is the
  named result, which the loop assigns and the function returns.
\<close>

function reconnect_loop ::
  "'r deps \<Rightarrow> reconnect_env \<Rightarrow> 'r Client \<Rightarrow> nat \<Rightarrow> error option
   \<Rightarrow> error option \<times> 'r Client \<times> action list" where
  "reconnect_loop d env m try err =
     (if try \<le> maxReconnectTries then
        (case Connect d (env_attempt env try) m of
           (err1, m1, as) \<Rightarrow>
             if err1 = None then (None, m1, as)
             else if try = maxReconnectTries then (Some Too_many_reconnect_attempts, m1, as)
             else if shutdown_wins (env_attempt env try)
               then (err1, m1, as @ [After_shutdown (int ((try + 3) * 2) * Second)])
             else
               (case reconnect_loop d env m1 (try + 1) err1 of
                  (err2, m2, bs) \<Rightarrow>
                    (err2, m2, as @ After (int ((try + 3) * 2) * Second) # bs)))
      else (err, m, []))"
  by pat_completeness auto
termination
  by (relation "measure (\<lambda>(d, env, m, try, err). Suc maxReconnectTries - try)") auto

declare reconnect_loop.simps [simp del]

definition reconnect ::
  "'r deps \<Rightarrow> reconnect_env \<Rightarrow> 'r Client \<Rightarrow> error option \<times> 'r Client \<times> action list" where
  "reconnect d env m =
     (case lockRestart m (env_now env) of
        (locked, m1) \<Rightarrow>
          if \<not> locked then (None, m1, [Enter_reconnect])
          else
            (case Disconnect d (env_conn_disconnected env) m1 of
               (derr, m2, as) \<Rightarrow>
                 (case reconnect_loop d env m2 0 None of
                    (err, m3, bs) \<Rightarrow>
                      (err, m3, Enter_reconnect # Send_restart # as @ bs))))"

text \<open>The calls of \<open>m.conn.Open\<close> among the effects: the attempts that reached the transport.\<close>

fun opens :: "action list \<Rightarrow> nat" where
  "opens [] = 0"
| "opens (Conn_Open u # as) = Suc (opens as)"
| "opens (a # as) = opens as"

subsection \<open>Tracked events\<close>

fun eventOfInterest_loop :: "string \<Rightarrow> string list \<Rightarrow> bool" where
  "eventOfInterest_loop name [] = False"
| "eventOfInterest_loop name (t # ts) = (if name = t then True else eventOfInterest_loop name ts)"

definition eventOfInterest :: "'r Client \<Rightarrow> string \<Rightarrow> bool" where
  "eventOfInterest m name = eventOfInterest_loop name (trackedEvents m)"


subsection \<open>The event handler\<close>

definition eventHandler :: "'r deps \<Rightarrow> 'r Client \<Rightarrow> discordPacket \<Rightarrow> 'r Client \<times> action list" where
  "eventHandler d m p =
     (let m1 = m\<lparr>sequenceNumber := sequenceNumber m + 1\<rparr>
      in if pkt_SequenceNumber p \<noteq> sequenceNumber m1
         then (m1\<lparr>sequenceNumber := sequenceNumber m1 - 1\<rparr>, [Go Fiber_reconnect])
         else if pkt_EventName p = event_Ready d
         then
           (let ready = unmarshal_ready d (pkt_Data p)
            in (m1\<lparr>sessionID := fst ready, trace := snd ready\<rparr>,
                [Send_eventChan \<lparr>evt_Name = pkt_EventName p, evt_Data = pkt_Data p\<rparr>]))
         else if pkt_EventName p = event_Resume d
         then (m1, [Send_eventChan \<lparr>evt_Name = pkt_EventName p, evt_Data = pkt_Data p\<rparr>])
         else if pkt_Op p = opcode_DiscordEvent d \<and> \<not> eventOfInterest m1 (pkt_EventName p)
         then (m1, [])
         else (m1, [Send_eventChan \<lparr>evt_Name = pkt_EventName p, evt_Data = pkt_Data p\<rparr>]))"

subsection \<open>Hello: identify or resume\<close>

text \<open>
  The \<open>identityPayload\<close> struct of \<open>sendIdentityPacket\<close>: \<open>Compress\<close> and \<open>Presence\<close>
  keep their zero values, and the shard is set only for more than one shard.
\<close>

definition identityPayload :: "'r deps \<Rightarrow> 'r Client \<Rightarrow> payload" where
  "identityPayload d m =
     Identify_payload (Token (conf m)) (GOOS d) (Browser (conf m)) (Device (conf m)) False
       (GuildLargeThreshold (conf m))
       (if 1 < ShardCount (conf m) then Some (ShardID (conf m), ShardCount (conf m))
        else None)"

definition sendIdentityPacket ::
  "'r deps \<Rightarrow> 'r Client \<Rightarrow> error option \<times> 'r Client \<times> action list" where
  "sendIdentityPacket d m = Emit d m (event_Identify d) (identityPayload d m)"

definition sendHelloPacket :: "'r deps \<Rightarrow> 'r Client \<Rightarrow> 'r Client \<times> action list" where
  "sendHelloPacket d m =
     (if sessionID m = [] \<and> sequenceNumber m = 0
      then (case sendIdentityPacket d m of (err, m1, as) \<Rightarrow> (m1, Go Fiber_pulsate # as))
      else
        (case Emit d m (event_Resume d)
                (Resume_payload (Token (conf m)) (sessionID m) (sequenceNumber m)) of
           (err, m1, as) \<Rightarrow> (m1, Go Fiber_pulsate # as)))"

subsection \<open>The demultiplexer\<close>

text \<open>
  One turn of the loop of \<open>operationHandlers\<close> on a received packet: the \<open>switch\<close> on the
  operation code, the first case that matches. \<open>now\<close> is the clock when the packet is
  handled.
\<close>

definition operationHandlers_case ::
  "'r deps \<Rightarrow> time \<Rightarrow> 'r Client \<Rightarrow> discordPacket \<Rightarrow> 'r Client \<times> action list" where
  "operationHandlers_case d now m p =
     (if pkt_Op p = opcode_DiscordEvent d then eventHandler d m p
      else if pkt_Op p = opcode_Reconnect d then (m, [Go Fiber_reconnect])
      else if pkt_Op p = opcode_InvalidSession d then (m, [Go Fiber_invalid_session])
      else if pkt_Op p = opcode_Heartbeat d
      then (case Emit d m (event_Heartbeat d) (Uint_payload (sequenceNumber m)) of
              (err, m1, as) \<Rightarrow> (m1, as))
      else if pkt_Op p = opcode_Hello d
      then sendHelloPacket d (m\<lparr>heartbeatInterval := unmarshal_hello d (pkt_Data p)\<rparr>)
      else if pkt_Op p = opcode_HeartbeatAck d then (m\<lparr>lastHeartbeatAck := now\<rparr>, [])
      else (m, []))"

text \<open>The loop on the packets received, each with the clock at its turn.\<close>

fun operationHandlers ::
  "'r deps \<Rightarrow> 'r Client \<Rightarrow> (time \<times> discordPacket) list \<Rightarrow> 'r Client \<times> action list" where
  "operationHandlers d m [] = (m, [])"
| "operationHandlers d m ((now, p) # ps) =
     (case operationHandlers_case d now m p of
        (m1, as) \<Rightarrow> (case operationHandlers d m1 ps of (m2, bs) \<Rightarrow> (m2, as @ bs)))"

subsection \<open>The pulsator\<close>

definition AllowedToStartPulsating :: "'r Client \<Rightarrow> uint8 \<Rightarrow> bool \<times> 'r Client" where
  "AllowedToStartPulsating m serviceID =
     (let m1 = (if pulsating m = 0 then m\<lparr>pulsating := serviceID\<rparr> else m)
      in (pulsating m1 = serviceID, m1))"

definition StopPulsating :: "'r Client \<Rightarrow> uint8 \<Rightarrow> 'r Client" where
  "StopPulsating m serviceID =
     (if pulsating m = serviceID then m\<lparr>pulsating := 0\<rparr> else m)"

text \<open>\<open>uint8(rand.Intn(254) + 1)\<close>, from the number \<open>r\<close> that \<open>rand.Intn(254)\<close> returns.\<close>

definition pulsate_serviceID :: "nat \<Rightarrow> uint8" where
  "pulsate_serviceID r = of_nat (r + 1)"

text \<open>
  \<open>Time.After\<close>, and \<open>Time.Sub\<close>, which stops at the least and the greatest \<open>Duration\<close>.
\<close>

definition time_After :: "time \<Rightarrow> time \<Rightarrow> bool" where
  "time_After t u = (u < t)"

definition minDuration :: duration where
  "minDuration = - (2 ^ 63)"

definition maxDuration :: duration where
  "maxDuration = 2 ^ 63 - 1"

definition time_Sub :: "time \<Rightarrow> time \<Rightarrow> duration" where
  "time_Sub t u =
     (if t - u < minDuration then minDuration
      else if maxDuration < t - u then maxDuration
      else t - u)"

text \<open>
  One beat of the loop of \<open>pulsate\<close>: the snapshot, the heartbeat, and the watchdog started
  with the snapshot \<open>last_ack\<close> (the source's \<open>last\<close>) and the clock \<open>now\<close> as \<open>sent\<close>.
\<close>

definition pulsate_beat :: "'r deps \<Rightarrow> time \<Rightarrow> 'r Client \<Rightarrow> 'r Client \<times> action list" where
  "pulsate_beat d now m =
     (let last_ack = lastHeartbeatAck m;
          snr = sequenceNumber m
      in case Emit d m (event_Heartbeat d) (Uint_payload snr) of
           (err, m1, as) \<Rightarrow> (m1, as @ [Go (Fiber_watchdog last_ack now)]))"

text \<open>
  The watchdog goroutine of one beat. Its \<open>select\<close> ends either by the cancel channel or
  by the three-second timer; \<open>m\<close> is the client when the \<open>select\<close> ends.
\<close>

datatype wake = Cancelled | Deadline

definition watchdog ::
  "'r deps \<Rightarrow> reconnect_env \<Rightarrow> wake \<Rightarrow> time \<Rightarrow> time \<Rightarrow> 'r Client \<Rightarrow> 'r Client \<times> action list" where
  "watchdog d env w last_ack sent m =
     (case w of
        Cancelled \<Rightarrow> (m, [])
      | Deadline \<Rightarrow>
          (let receivedHeartbeatAck = time_After (lastHeartbeatAck m) last_ack
           in if \<not> receivedHeartbeatAck
              then (case reconnect d env m of (err, m1, as) \<Rightarrow> (m1, After (3 * Second) # as))
              else (m\<lparr>heartbeatLatency := time_Sub (lastHeartbeatAck m) sent\<rparr>,
                    [After (3 * Second)])))"

text \<open>
  The pulsator goroutines of a client. One is active from the call of
  \<open>AllowedToStartPulsating\<close> that lets it pass until its deferred \<open>StopPulsating\<close> has run;
  one that is refused returns at once. \<open>Start r\<close> is a call of \<open>pulsate\<close> whose
  \<open>rand.Intn(254)\<close> gives \<open>r\<close>; \<open>Exit i\<close> is the return of the active pulsator with
  service id \<open>i\<close>. The state is the client and the service ids of the active pulsators.
\<close>

datatype pulse_op = Start nat | Exit uint8

fun pulse_step :: "'r Client \<times> uint8 list \<Rightarrow> pulse_op \<Rightarrow> 'r Client \<times> uint8 list" where
  "pulse_step (m, active) (Start r) =
     (case AllowedToStartPulsating m (pulsate_serviceID r) of
        (ok, m1) \<Rightarrow> (m1, if ok then active @ [pulsate_serviceID r] else active))"
| "pulse_step (m, active) (Exit i) =
     (if i \<in> set active then (StopPulsating m i, remove1 i active) else (m, active))"

fun pulse_run :: "'r Client \<times> uint8 list \<Rightarrow> pulse_op list \<Rightarrow> 'r Client \<times> uint8 list" where
  "pulse_run s [] = s"
| "pulse_run s (op # ops) = pulse_run (pulse_step s op) ops"

subsection \<open>A new client, and an instance of the parameters\<close>

text \<open>
  The struct literal of \<open>NewClient\<close>: the fields it names, and the zero value of the others.
  Instants are counted from the zero \<open>time.Time\<close>.
\<close>

definition NewClient :: "Config \<Rightarrow> 'r \<Rightarrow> 'r Client" where
  "NewClient config rl =
     \<lparr>conf = config, lastRestart = 0, trackedEvents = [], heartbeatInterval = 0,
      heartbeatLatency = 0, lastHeartbeatAck = 0, sessionID = [], trace = [],
      sequenceNumber = 0, ratelimit = rl, pulsating = 0, disconnected = True,
      haveConnectedOnce = False, timeoutMultiplier = 1\<rparr>"

text \<open>
  An instance of the parameters, for evaluating the model on examples: the operation codes
  of the wire protocol, two further codes for the internal commands, upper-case names, a
  limiter that counts down a stock of permits, and decoders that read the first byte.
\<close>

definition demo_deps :: "nat deps" where
  "demo_deps =
     \<lparr>event_Shutdown = ''SHUTDOWN'', event_Close = ''CLOSE'', event_Heartbeat = ''HEARTBEAT'',
      event_Identify = ''IDENTIFY'', event_Resume = ''RESUMED'', event_Ready = ''READY'',
      cmd_RequestGuildMembers = ''REQUEST_GUILD_MEMBERS'',
      cmd_UpdateVoiceState = ''UPDATE_VOICE_STATE'', cmd_UpdateStatus = ''UPDATE_STATUS'',
      opcode_Shutdown = 100, opcode_Close = 101, opcode_DiscordEvent = 0,
      opcode_Heartbeat = 1, opcode_Identify = 2, opcode_Resume = 6, opcode_Reconnect = 7,
      opcode_RequestGuildMembers = 8, opcode_VoiceStateUpdate = 4, opcode_StatusUpdate = 3,
      opcode_InvalidSession = 9, opcode_Hello = 10, opcode_HeartbeatAck = 11,
      GOOS = ''linux'',
      Request = (\<lambda>n command. (0 < n, n - 1)),
      unmarshal_hello = (\<lambda>bs. case bs of [] \<Rightarrow> 0 | b # _ \<Rightarrow> ucast b),
      unmarshal_ready = (\<lambda>bs. case bs of [] \<Rightarrow> ([], []) | b # _ \<Rightarrow> (''abc'', [''g1'']))\<rparr>"

definition demo_config :: Config where
  "demo_config =
     \<lparr>Token = ''T'', Endpoint = ''wss://gateway'', Version = 6, Browser = ''disgord'',
      Device = ''disgord'', GuildLargeThreshold = 250, ShardID = 0, ShardCount = 0\<rparr>"

text \<open>A client that has connected once, and one in the middle of a session.\<close>

definition demo_connected :: "nat Client" where
  "demo_connected = (NewClient demo_config 5)\<lparr>haveConnectedOnce := True, disconnected := False\<rparr>"

definition demo_session :: "nat Client" where
  "demo_session = demo_connected\<lparr>sessionID := ''abc'', sequenceNumber := 5\<rparr>"

text \<open>Packets for the examples: a dispatched event, three in sequence, and a Hello.\<close>

definition demo_event :: "uint \<Rightarrow> string \<Rightarrow> discordPacket" where
  "demo_event s t = \<lparr>pkt_Op = 0, pkt_SequenceNumber = s, pkt_EventName = t, pkt_Data = [1]\<rparr>"

definition demo_events :: "(time \<times> discordPacket) list" where
  "demo_events =
     [(10, demo_event 1 ''READY''), (20, demo_event 2 ''GUILD_CREATE''),
      (30, demo_event 3 ''MESSAGE_CREATE'')]"

definition demo_hello :: discordPacket where
  "demo_hello = \<lparr>pkt_Op = 10, pkt_SequenceNumber = 0, pkt_EventName = [], pkt_Data = [200]\<rparr>"

text \<open>
  An environment in which every \<open>Connect\<close> fails at \<open>m.conn.Open\<close> and no shutdown comes,
  with the clock of the call as parameter; and a client whose last heartbeat was
  acknowledged at instant 2000.
\<close>

definition demo_attempt_fails :: attempt where
  "demo_attempt_fails =
     \<lparr>route_url = [], route_err = None, open_err = Some (Collaborator_error ''dial''),
      shutdown_wins = False\<rparr>"

definition demo_env :: "int64 \<Rightarrow> reconnect_env" where
  "demo_env now =
     \<lparr>env_now = now, env_conn_disconnected = False, env_attempt = (\<lambda>try. demo_attempt_fails)\<rparr>"

definition demo_acked :: "nat Client" where
  "demo_acked = demo_connected\<lparr>lastHeartbeatAck := 2000\<rparr>"

subsection \<open>Runs of pulsators without a collision\<close>

text \<open>
  In a run, no pulsator draws the service id of one that is active, and every draw is one
  that \<open>rand.Intn(254)\<close> can return. \<open>single_flight\<close> is the invariant of such runs: either
  the token is zero and no pulsator is active, or exactly the owner of the token is.
\<close>

fun no_collision :: "'r Client \<times> uint8 list \<Rightarrow> pulse_op list \<Rightarrow> bool" where
  "no_collision s [] = True"
| "no_collision s (Start r # ops) =
     (r < 254 \<and> pulsate_serviceID r \<notin> set (snd s) \<and> no_collision (pulse_step s (Start r)) ops)"
| "no_collision s (Exit i # ops) = no_collision (pulse_step s (Exit i)) ops"

definition single_flight :: "'r Client \<times> uint8 list \<Rightarrow> bool" where
  "single_flight s \<longleftrightarrow>
     (pulsating (fst s) = 0 \<and> snd s = []) \<or> (pulsating (fst s) \<noteq> 0 \<and> snd s = [pulsating (fst s)])"

subsection \<open>The event names of the protocol\<close>


subsection \<open>Distinct cases\<close>

text \<open>
  The constants of the two \<open>switch\<close> statements are pairwise distinct: the Go compiler
  rejects a \<open>switch\<close> with a duplicate constant case.
\<close>

definition distinct_cases :: "'r deps \<Rightarrow> bool" where
  "distinct_cases d \<longleftrightarrow>
     distinct (command_names d) \<and>
     distinct [opcode_DiscordEvent d, opcode_Reconnect d, opcode_InvalidSession d,
               opcode_Heartbeat d, opcode_Hello d, opcode_HeartbeatAck d]"

section \<open>Properties\<close>

subsection \<open>Emit\<close>

lemma command_opcode_table: "command_opcode d command = map_of (command_table d) command"
  by (simp add: command_opcode_def command_table_def)

lemma command_opcode_None: "command_opcode d command = None \<longleftrightarrow> command \<notin> set (command_names d)"
  by (simp add: command_opcode_def command_names_def)

lemma Emit_no_transport: "filter on_transport (snd (snd (Emit d m command data))) = []"
  by (simp add: Emit_def Let_def split: option.splits prod.splits)

lemma Emit_table:
  "Emit d m command data =
     (if \<not> haveConnectedOnce m then (Some Not_connected, m, [])
      else case map_of (command_table d) command of
        None \<Rightarrow> (Some (Unsupported_command command), m, [])
      | Some op \<Rightarrow>
          if \<not> fst (Request d (ratelimit m) command)
          then (Some Rate_limited, m\<lparr>ratelimit := snd (Request d (ratelimit m) command)\<rparr>, [])
          else (None, m\<lparr>ratelimit := snd (Request d (ratelimit m) command)\<rparr>,
                [Send_emitChan \<lparr>cp_Op = op, cp_Data = data\<rparr>]))"
  by (simp add: Emit_def Let_def command_opcode_table [symmetric]
      split: option.splits prod.splits)

lemma command_table_None:
  "map_of (command_table d) command = None \<longleftrightarrow> command \<notin> set (command_names d)"
  by (simp only: command_opcode_table [symmetric] command_opcode_None)

text \<open>
  C8, as amended. \<open>Emit\<close> first refuses with the not-connected error when no \<open>Connect\<close> has
  succeeded, whatever the command. Once connected, it refuses a command that is outside the
  table with the unsupported-command error; it refuses a command of the table that the
  limiter rejects with the rate-limited error; and otherwise it puts exactly one packet on the
  outbound channel, with the opcode the table gives and the data as given. None of its
  effects is a call on the transport.
\<close>

theorem Emit_cases:
  "Emit d m command data =
     (if \<not> haveConnectedOnce m then (Some Not_connected, m, [])
      else case map_of (command_table d) command of
        None \<Rightarrow> (Some (Unsupported_command command), m, [])
      | Some op \<Rightarrow>
          if \<not> fst (Request d (ratelimit m) command)
          then (Some Rate_limited, m\<lparr>ratelimit := snd (Request d (ratelimit m) command)\<rparr>, [])
          else (None, m\<lparr>ratelimit := snd (Request d (ratelimit m) command)\<rparr>,
                [Send_emitChan \<lparr>cp_Op = op, cp_Data = data\<rparr>]))
   \<and> (map_of (command_table d) command = None \<longleftrightarrow> command \<notin> set (command_names d))
   \<and> filter on_transport (snd (snd (Emit d m command data))) = []"
proof (intro conjI)
  show "map_of (command_table d) command = None \<longleftrightarrow> command \<notin> set (command_names d)"
    by (rule command_table_None)
next
  show "filter on_transport (snd (snd (Emit d m command data))) = []"
    by (rule Emit_no_transport)
qed (rule Emit_table)

text \<open>A heartbeat from a connected client with permits left.\<close>

theorem Emit_cases_witness:
  "Emit demo_deps demo_connected ''HEARTBEAT'' (Uint_payload 0) =
     (None, demo_connected\<lparr>ratelimit := 4\<rparr>,
      [Send_emitChan \<lparr>cp_Op = 1, cp_Data = Uint_payload 0\<rparr>])
   \<and> ''HEARTBEAT'' \<in> set (command_names demo_deps)
   \<and> filter on_transport
         (snd (snd (Emit demo_deps demo_connected ''HEARTBEAT'' (Uint_payload 0)))) = []"
  using Emit_cases [of demo_deps demo_connected "''HEARTBEAT''" "Uint_payload 0"]
  by (simp add: demo_deps_def demo_connected_def NewClient_def command_table_def
      command_names_def)

text \<open>
  C8 as stated fails for a command outside the table on a client that has never connected:
  the error is the not-connected one, not the unsupported-command one.
\<close>

theorem Emit_unsupported_counterexample:
  "''BOGUS'' \<notin> set (command_names demo_deps) \<and>
   fst (Emit demo_deps (NewClient demo_config (5::nat)) ''BOGUS'' Nil_payload) = Some Not_connected"
  by (simp add: command_names_def demo_deps_def Emit_def NewClient_def)

subsection \<open>Disconnect\<close>

text \<open>
  C10. When the transport reports that it is disconnected, or no \<open>Connect\<close> has succeeded,
  \<open>Disconnect\<close> returns the already-disconnected error, sets the \<open>disconnected\<close> flag and
  changes nothing else; it has no effect outside the struct, so no Close packet is emitted.
\<close>

theorem Disconnect_already_disconnected:
  assumes "conn_disconnected \<or> \<not> haveConnectedOnce m"
  shows "Disconnect d conn_disconnected m =
           (Some Already_disconnected, m\<lparr>disconnected := True\<rparr>, [])"
  using assms by (auto simp: Disconnect_def)

text \<open>A new client, with a transport that does not report itself disconnected.\<close>

theorem Disconnect_already_disconnected_witness:
  "\<not> haveConnectedOnce (NewClient demo_config (5::nat)) \<and>
   Disconnect demo_deps False (NewClient demo_config (5::nat)) =
     (Some Already_disconnected, (NewClient demo_config 5)\<lparr>disconnected := True\<rparr>, [])"
  using Disconnect_already_disconnected [of False "NewClient demo_config (5::nat)" demo_deps]
  by (simp add: NewClient_def)

subsection \<open>The event handler\<close>

lemma eventOfInterest_loop_set: "eventOfInterest_loop name ts \<longleftrightarrow> name \<in> set ts"
  by (induction ts) auto

lemma eventHandler_mismatch:
  "pkt_SequenceNumber p \<noteq> sequenceNumber m + 1 \<Longrightarrow> eventHandler d m p = (m, [Go Fiber_reconnect])"
  by (simp add: eventHandler_def Let_def)

text \<open>
  C1. A dispatched event whose sequence number is not the client's \<open>sequenceNumber + 1\<close>
  (in the arithmetic of \<open>uint\<close>) leaves the whole client as it was, the counter included:
  the increment is taken back. Nothing is sent on the event channel; the one effect is the
  goroutine started for \<open>reconnect\<close>, which runs apart from the handler.
\<close>

theorem eventHandler_sequence_mismatch:
  assumes "pkt_Op p = opcode_DiscordEvent d"
    and "pkt_SequenceNumber p \<noteq> sequenceNumber m + 1"
  shows "operationHandlers_case d now m p = (m, [Go Fiber_reconnect])
         \<and> eventHandler d m p = (m, [Go Fiber_reconnect])
         \<and> forwarded (snd (eventHandler d m p)) = []"
  using assms by (simp add: operationHandlers_case_def eventHandler_mismatch)

text \<open>The client at sequence number 5 receives an event numbered 7.\<close>

theorem eventHandler_sequence_mismatch_witness:
  "pkt_Op (demo_event 7 ''MESSAGE_CREATE'') = opcode_DiscordEvent demo_deps
   \<and> pkt_SequenceNumber (demo_event 7 ''MESSAGE_CREATE'') \<noteq> sequenceNumber demo_session + 1
   \<and> sequenceNumber demo_session = 5
   \<and> operationHandlers_case demo_deps 0 demo_session (demo_event 7 ''MESSAGE_CREATE'') =
       (demo_session, [Go Fiber_reconnect])"
  using eventHandler_sequence_mismatch
    [of "demo_event 7 ''MESSAGE_CREATE''" demo_deps demo_session 0]
  by (simp add: demo_event_def demo_deps_def demo_session_def)

lemma eventHandler_match:
  assumes "pkt_Op p = opcode_DiscordEvent d"
    and "pkt_SequenceNumber p = sequenceNumber m + 1"
  shows "eventHandler d m p =
    (if pkt_EventName p = event_Ready d
     then (m\<lparr>sequenceNumber := sequenceNumber m + 1,
             sessionID := fst (unmarshal_ready d (pkt_Data p)),
             trace := snd (unmarshal_ready d (pkt_Data p))\<rparr>,
           [Send_eventChan \<lparr>evt_Name = pkt_EventName p, evt_Data = pkt_Data p\<rparr>])
     else (m\<lparr>sequenceNumber := sequenceNumber m + 1\<rparr>,
           if pkt_EventName p = event_Resume d \<or> pkt_EventName p \<in> set (trackedEvents m)
           then [Send_eventChan \<lparr>evt_Name = pkt_EventName p, evt_Data = pkt_Data p\<rparr>]
           else []))"
  using assms
  by (simp add: eventHandler_def Let_def eventOfInterest_def eventOfInterest_loop_set)






lemma eventHandler_match_sequenceNumber:
  assumes "pkt_Op p = opcode_DiscordEvent d"
    and "pkt_SequenceNumber p = sequenceNumber m + 1"
  shows "sequenceNumber (fst (eventHandler d m p)) = sequenceNumber m + 1"
  by (simp add: eventHandler_match [OF assms])

lemma operationHandlers_counts:
  "\<forall>i < length ps. pkt_Op (snd (ps ! i)) = opcode_DiscordEvent d
       \<and> pkt_SequenceNumber (snd (ps ! i)) = sequenceNumber m + of_nat (i + 1)
   \<Longrightarrow> sequenceNumber (fst (operationHandlers d m ps)) = sequenceNumber m + of_nat (length ps)"
proof (induction ps arbitrary: m)
  case Nil
  then show ?case by simp
next
  case (Cons np ps)
  obtain now p where np: "np = (now, p)" by (cases np)
  from Cons.prems have hd: "pkt_Op p = opcode_DiscordEvent d"
    "pkt_SequenceNumber p = sequenceNumber m + 1"
    by (auto simp: np)
  obtain m1 as where step: "operationHandlers_case d now m p = (m1, as)"
    by (cases "operationHandlers_case d now m p")
  have m1: "sequenceNumber m1 = sequenceNumber m + 1"
    using eventHandler_match_sequenceNumber [OF hd] step hd(1)
    by (simp add: operationHandlers_case_def)
  have "\<forall>i < length ps. pkt_Op (snd (ps ! i)) = opcode_DiscordEvent d
       \<and> pkt_SequenceNumber (snd (ps ! i)) = sequenceNumber m1 + of_nat (i + 1)"
  proof (intro allI impI)
    fix i assume "i < length ps"
    then have "Suc i < length (np # ps)" by simp
    with Cons.prems have "pkt_Op (snd ((np # ps) ! Suc i)) = opcode_DiscordEvent d
       \<and> pkt_SequenceNumber (snd ((np # ps) ! Suc i)) = sequenceNumber m + of_nat (Suc i + 1)"
      by blast
    then show "pkt_Op (snd (ps ! i)) = opcode_DiscordEvent d
       \<and> pkt_SequenceNumber (snd (ps ! i)) = sequenceNumber m1 + of_nat (i + 1)"
      by (simp add: m1 add.assoc)
  qed
  from Cons.IH [OF this]
  have "sequenceNumber (fst (operationHandlers d m1 ps)) = sequenceNumber m1 + of_nat (length ps)" .
  then show ?case
    by (cases "operationHandlers d m1 ps") (simp add: np step m1 add.assoc)
qed

text \<open>
  C9. From \<open>sequenceNumber = 0\<close>, the loop of \<open>operationHandlers\<close> on \<open>N\<close> dispatched
  events numbered \<open>1, 2, ..., N\<close> ends with \<open>sequenceNumber = N\<close>: as a \<open>uint\<close>, and as the
  number itself for every \<open>N\<close> a \<open>uint\<close> can hold.
\<close>

theorem sequenceNumber_counts_events:
  assumes "sequenceNumber m = 0"
    and "\<forall>i < length ps. pkt_Op (snd (ps ! i)) = opcode_DiscordEvent d
           \<and> pkt_SequenceNumber (snd (ps ! i)) = of_nat (i + 1)"
  shows "sequenceNumber (fst (operationHandlers d m ps)) = of_nat (length ps)
         \<and> (length ps < 2 ^ 64 \<longrightarrow>
              unat (sequenceNumber (fst (operationHandlers d m ps))) = length ps)"
proof -
  have "sequenceNumber (fst (operationHandlers d m ps)) = sequenceNumber m + of_nat (length ps)"
    by (rule operationHandlers_counts) (use assms in simp)
  then have eq: "sequenceNumber (fst (operationHandlers d m ps)) = of_nat (length ps)"
    by (simp add: assms(1))
  show ?thesis
  proof (intro conjI impI)
    assume "length ps < 2 ^ 64"
    then show "unat (sequenceNumber (fst (operationHandlers d m ps))) = length ps"
      unfolding eq by (simp add: unat_of_nat take_bit_nat_eq_self)
  qed (rule eq)
qed

text \<open>Three events, numbered 1, 2 and 3.\<close>

theorem sequenceNumber_counts_events_witness:
  "sequenceNumber demo_connected = 0
   \<and> opcode_DiscordEvent demo_deps = 0
   \<and> map (\<lambda>np. pkt_Op (snd np)) demo_events = [0, 0, 0]
   \<and> map (\<lambda>np. pkt_SequenceNumber (snd np)) demo_events = [1, 2, 3]
   \<and> sequenceNumber (fst (operationHandlers demo_deps demo_connected demo_events)) = 3
   \<and> unat (sequenceNumber (fst (operationHandlers demo_deps demo_connected demo_events))) = 3"
proof -
  have len: "length demo_events = 3" by (simp add: demo_events_def)
  have pre: "\<forall>i < length demo_events.
      pkt_Op (snd (demo_events ! i)) = opcode_DiscordEvent demo_deps
      \<and> pkt_SequenceNumber (snd (demo_events ! i)) = of_nat (i + 1)"
    unfolding len
    by (simp add: demo_events_def demo_event_def demo_deps_def less_Suc_eq numeral_3_eq_3)
  have s0: "sequenceNumber demo_connected = 0"
    by (simp add: demo_connected_def NewClient_def)
  have ops: "opcode_DiscordEvent demo_deps = 0
     \<and> map (\<lambda>np. pkt_Op (snd np)) demo_events = [0, 0, 0]
     \<and> map (\<lambda>np. pkt_SequenceNumber (snd np)) demo_events = [1, 2, 3]"
    by (simp add: demo_events_def demo_event_def demo_deps_def)
  show ?thesis
    using sequenceNumber_counts_events [OF s0 pre] s0 ops
    by (simp add: len)
qed

subsection \<open>Hello\<close>

lemma command_opcode_Identify:
  "distinct (command_names d) \<Longrightarrow> command_opcode d (event_Identify d) = Some (opcode_Identify d)"
  by (auto simp: command_opcode_def command_names_def)

lemma command_opcode_Resume:
  "distinct (command_names d) \<Longrightarrow> command_opcode d (event_Resume d) = Some (opcode_Resume d)"
  by (auto simp: command_opcode_def command_names_def)

lemma emitted_Emit:
  "command_opcode d command = Some op \<Longrightarrow>
   emitted (snd (snd (Emit d m command data))) =
     (if haveConnectedOnce m \<and> fst (Request d (ratelimit m) command)
      then [\<lparr>cp_Op = op, cp_Data = data\<rparr>] else [])"
  by (simp add: Emit_def Let_def split: prod.splits)

lemma Emit_heartbeatInterval:
  "Emit d m command data = (err, m1, as) \<Longrightarrow> heartbeatInterval m1 = heartbeatInterval m"
  by (auto simp: Emit_def Let_def split: prod.splits option.splits if_splits)

lemma sendHelloPacket_emitted:
  assumes "distinct (command_names d)"
  shows "emitted (snd (sendHelloPacket d m)) =
     (if sessionID m = [] \<and> sequenceNumber m = 0
      then (if haveConnectedOnce m \<and> fst (Request d (ratelimit m) (event_Identify d))
            then [\<lparr>cp_Op = opcode_Identify d, cp_Data = identityPayload d m\<rparr>] else [])
      else (if haveConnectedOnce m \<and> fst (Request d (ratelimit m) (event_Resume d))
            then [\<lparr>cp_Op = opcode_Resume d,
                   cp_Data = Resume_payload (Token (conf m)) (sessionID m) (sequenceNumber m)\<rparr>]
            else []))"
proof (cases "sessionID m = [] \<and> sequenceNumber m = 0")
  case True
  then show ?thesis
    using emitted_Emit [OF command_opcode_Identify [OF assms], of m "identityPayload d m"]
    by (auto simp: sendHelloPacket_def sendIdentityPacket_def split: prod.splits)
next
  case False
  then show ?thesis
    using emitted_Emit [OF command_opcode_Resume [OF assms], of m
        "Resume_payload (Token (conf m)) (sessionID m) (sequenceNumber m)"]
    by (auto simp: sendHelloPacket_def split: prod.splits)
qed

lemma sendHelloPacket_heartbeatInterval:
  "heartbeatInterval (fst (sendHelloPacket d m)) = heartbeatInterval m"
  by (auto simp: sendHelloPacket_def sendIdentityPacket_def split: prod.splits
      dest: Emit_heartbeatInterval)

text \<open>
  C2, as amended. On a Hello packet the client stores the heartbeat interval decoded from
  the data. Then, if a \<open>Connect\<close> has succeeded and the limiter admits the command, it puts
  exactly one packet on the outbound channel: with empty session id and sequence number 0
  the Identify packet, and otherwise the Resume packet with the configured token, the stored
  session id and the stored sequence number, and no Identify. If \<open>Emit\<close> refuses the
  command, no packet is sent.
\<close>

theorem Hello_identify_or_resume:
  assumes "distinct_cases d" and "pkt_Op p = opcode_Hello d"
  shows "heartbeatInterval (fst (operationHandlers_case d now m p)) =
           unmarshal_hello d (pkt_Data p)
         \<and> emitted (snd (operationHandlers_case d now m p)) =
             (if sessionID m = [] \<and> sequenceNumber m = 0
              then (if haveConnectedOnce m \<and> fst (Request d (ratelimit m) (event_Identify d))
                    then [\<lparr>cp_Op = opcode_Identify d, cp_Data = identityPayload d m\<rparr>]
                    else [])
              else (if haveConnectedOnce m \<and> fst (Request d (ratelimit m) (event_Resume d))
                    then [\<lparr>cp_Op = opcode_Resume d,
                           cp_Data = Resume_payload (Token (conf m)) (sessionID m)
                                       (sequenceNumber m)\<rparr>]
                    else []))"
proof -
  let ?m1 = "m\<lparr>heartbeatInterval := unmarshal_hello d (pkt_Data p)\<rparr>"
  have names: "distinct (command_names d)"
    using assms(1) by (simp add: distinct_cases_def)
  have "operationHandlers_case d now m p = sendHelloPacket d ?m1"
    using assms by (auto simp: operationHandlers_case_def distinct_cases_def)
  moreover have "identityPayload d ?m1 = identityPayload d m"
    by (simp add: identityPayload_def)
  ultimately show ?thesis
    using sendHelloPacket_emitted [OF names, of ?m1] sendHelloPacket_heartbeatInterval [of d ?m1]
    by simp
qed

text \<open>
  A Hello in the middle of a session (session id \<open>abc\<close>, sequence number 5) and a Hello
  on a fresh connection.
\<close>

theorem Hello_identify_or_resume_witness:
  "distinct_cases demo_deps \<and> pkt_Op demo_hello = opcode_Hello demo_deps
   \<and> heartbeatInterval (fst (operationHandlers_case demo_deps 0 demo_session demo_hello)) = 200
   \<and> emitted (snd (operationHandlers_case demo_deps 0 demo_session demo_hello)) =
       [\<lparr>cp_Op = 6, cp_Data = Resume_payload ''T'' ''abc'' 5\<rparr>]
   \<and> emitted (snd (operationHandlers_case demo_deps 0 demo_connected demo_hello)) =
       [\<lparr>cp_Op = 2,
         cp_Data = Identify_payload ''T'' ''linux'' ''disgord'' ''disgord'' False 250 None\<rparr>]"
proof -
  have wf: "distinct_cases demo_deps"
    by (simp add: distinct_cases_def command_names_def demo_deps_def)
  have op: "pkt_Op demo_hello = opcode_Hello demo_deps"
    by (simp add: demo_hello_def demo_deps_def)
  show ?thesis
    using Hello_identify_or_resume [OF wf op, of 0 demo_session]
      Hello_identify_or_resume [OF wf op, of 0 demo_connected] wf op
    by (simp add: identityPayload_def demo_session_def
        demo_connected_def NewClient_def demo_deps_def demo_hello_def demo_config_def)
qed

text \<open>
  C2 as stated fails on a client that has never connected, which \<open>operationHandlers\<close>
  already serves (\<open>NewClient\<close> and \<open>NewTestClient\<close> start it before any \<open>Connect\<close>): the
  Hello is answered with no packet at all.
\<close>

theorem Hello_sends_one_frame_counterexample:
  "pkt_Op demo_hello = opcode_Hello demo_deps
   \<and> emitted (snd (operationHandlers_case demo_deps 0 (NewClient demo_config 5) demo_hello)) = []"
  by (simp add: operationHandlers_case_def sendHelloPacket_def sendIdentityPacket_def Emit_def
      demo_hello_def demo_deps_def NewClient_def)

subsection \<open>reconnect\<close>

lemma reconnect_debounced:
  "\<not> fst (lockRestart m (env_now env)) \<Longrightarrow> reconnect d env m = (None, m, [Enter_reconnect])"
  by (simp add: reconnect_def lockRestart_def Let_def)

lemma reconnect_proceeds:
  "fst (lockRestart m (env_now env)) \<Longrightarrow>
   \<exists>as. snd (snd (reconnect d env m)) = Enter_reconnect # Send_restart # as"
  by (auto simp: reconnect_def lockRestart_def Let_def split: prod.splits)

lemma reconnect_Enter: "Enter_reconnect \<in> set (snd (snd (reconnect d env m)))"
  by (cases "fst (lockRestart m (env_now env))")
    (use reconnect_proceeds [of m env d] in \<open>auto simp: reconnect_debounced\<close>)

lemma reconnect_Send_restart:
  "Send_restart \<in> set (snd (snd (reconnect d env m))) \<longleftrightarrow> fst (lockRestart m (env_now env))"
  by (cases "fst (lockRestart m (env_now env))")
    (use reconnect_proceeds [of m env d] in \<open>auto simp: reconnect_debounced\<close>)

lemma lockRestart_locked:
  "fst (lockRestart m now) \<longleftrightarrow> 500000000 <s now - lastRestart m"
  by (simp add: lockRestart_def Let_def)

lemma lockRestart_lastRestart:
  "lastRestart (snd (lockRestart m now)) = (if fst (lockRestart m now) then now else lastRestart m)"
  by (simp add: lockRestart_def Let_def)

lemma sint_diff_in_range:
  fixes a b :: int64
  assumes "- (2 ^ 63) \<le> sint a - sint b" and "sint a - sint b < 2 ^ 63"
  shows "sint (a - b) = sint a - sint b"
  using assms by (simp add: sint_word_ariths signed_take_bit_int_eq_self)

text \<open>Nothing but \<open>lockRestart\<close> writes \<open>lastRestart\<close>.\<close>

lemma Emit_lastRestart:
  "Emit d m command data = (err, m1, as) \<Longrightarrow> lastRestart m1 = lastRestart m"
  by (auto simp: Emit_def Let_def split: prod.splits option.splits if_splits)

lemma Disconnect_lastRestart:
  "Disconnect d conn_disconnected m = (err, m1, as) \<Longrightarrow> lastRestart m1 = lastRestart m"
  by (auto simp: Disconnect_def Let_def split: prod.splits if_splits dest: Emit_lastRestart)

lemma Connect_lastRestart:
  "Connect d at m = (err, m1, as) \<Longrightarrow> lastRestart m1 = lastRestart m"
  by (auto simp: Connect_def Let_def split: prod.splits option.splits if_splits)

lemma reconnect_loop_lastRestart:
  "reconnect_loop d env m try err = (err', m', as) \<Longrightarrow> lastRestart m' = lastRestart m"
proof (induction d env m "try" err arbitrary: err' m' as rule: reconnect_loop.induct)
  case (1 d env m "try" err)
  show ?case
  proof (cases "try \<le> maxReconnectTries")
    case False
    with "1.prems" show ?thesis by (simp add: reconnect_loop.simps)
  next
    case True
    obtain err1 m1 as1 where c: "Connect d (env_attempt env try) m = (err1, m1, as1)"
      by (cases "Connect d (env_attempt env try) m")
    have m1: "lastRestart m1 = lastRestart m" by (rule Connect_lastRestart [OF c])
    show ?thesis
    proof (cases "err1 = None \<or> try = maxReconnectTries \<or> shutdown_wins (env_attempt env try)")
      case True
      with "1.prems" \<open>try \<le> maxReconnectTries\<close> c have "m' = m1"
        by (subst (asm) reconnect_loop.simps) (auto split: if_splits)
      with m1 show ?thesis by simp
    next
      case False
      obtain err2 m2 bs where r: "reconnect_loop d env m1 (try + 1) err1 = (err2, m2, bs)"
        by (cases "reconnect_loop d env m1 (try + 1) err1")
      from False \<open>try \<le> maxReconnectTries\<close> c r "1.prems" have "m' = m2"
        by (subst (asm) reconnect_loop.simps) (auto split: if_splits)
      moreover have "lastRestart m2 = lastRestart m1"
        using "1.IH" [OF \<open>try \<le> maxReconnectTries\<close> c [symmetric] refl _ _ _ r] False
        by auto
      ultimately show ?thesis using m1 by simp
    qed
  qed
qed

lemma reconnect_lastRestart:
  "lastRestart (fst (snd (reconnect d env m))) = lastRestart (snd (lockRestart m (env_now env)))"
proof (cases "fst (lockRestart m (env_now env))")
  case False
  then show ?thesis
    by (simp add: reconnect_debounced) (simp add: lockRestart_def Let_def)
next
  case True
  obtain m1 where l: "lockRestart m (env_now env) = (True, m1)"
    using True by (cases "lockRestart m (env_now env)") simp
  obtain derr m2 as where dc: "Disconnect d (env_conn_disconnected env) m1 = (derr, m2, as)"
    by (cases "Disconnect d (env_conn_disconnected env) m1")
  obtain err m3 bs where lp: "reconnect_loop d env m2 0 None = (err, m3, bs)"
    by (cases "reconnect_loop d env m2 0 None")
  have "lastRestart m3 = lastRestart m1"
    using reconnect_loop_lastRestart [OF lp] Disconnect_lastRestart [OF dc] by simp
  then show ?thesis
    by (simp add: reconnect_def l dc lp)
qed

lemma reconnect_lastRestart_cases:
  "lastRestart (fst (snd (reconnect d env m))) =
     (if 500000000 <s env_now env - lastRestart m then env_now env else lastRestart m)"
  by (simp add: reconnect_lastRestart lockRestart_def Let_def)

lemma reconnect_proceeds_iff:
  "Send_restart \<in> set (snd (snd (reconnect d env m))) \<longleftrightarrow>
     500000000 <s env_now env - lastRestart m"
  by (simp add: reconnect_Send_restart lockRestart_locked)

lemma reconnect_second_dropped:
  assumes "lastRestart m' = lastRestart (fst (snd (reconnect d env m)))"
    and "env_now env' - env_now env \<le>s 500000000"
    and "Send_restart \<in> set (snd (snd (reconnect d env m)))"
  shows "Send_restart \<notin> set (snd (snd (reconnect d' env' m')))"
proof -
  have "lastRestart m' = env_now env"
    using assms(1,3) by (simp add: reconnect_lastRestart_cases reconnect_proceeds_iff)
  with assms(2) show ?thesis
    by (simp add: reconnect_proceeds_iff word_sless_alt word_sle_eq)
qed

text \<open>
  C6. \<open>reconnect\<close> goes on (sends on the restart channel, disconnects, connects) exactly
  when \<open>now - lastRestart\<close> exceeds half a second, in the arithmetic of \<open>int64\<close>; where the
  difference of the two clock readings is representable, this is the comparison of the
  integers. When it goes on, the difference is at least half a second and the client it
  leaves has \<open>lastRestart = now\<close>. A call with \<open>now - lastRestart\<close> at most half a second
  returns \<open>nil\<close> at once, with the client unchanged and no effect, so without disconnecting.
  Of two calls whose clocks are at most half a second apart, the second on the client the
  first leaves (or on any client with the \<open>lastRestart\<close> the first leaves), at most one
  goes on: there is at most one series of attempts.
\<close>

theorem reconnect_debounce:
  "(Send_restart \<in> set (snd (snd (reconnect d env m)))
      \<longleftrightarrow> 500000000 <s env_now env - lastRestart m)
   \<and> (Send_restart \<in> set (snd (snd (reconnect d env m))) \<longrightarrow>
        500000000 \<le>s env_now env - lastRestart m
        \<and> lastRestart (fst (snd (reconnect d env m))) = env_now env)
   \<and> (- (2 ^ 63) \<le> sint (env_now env) - sint (lastRestart m)
        \<and> sint (env_now env) - sint (lastRestart m) < 2 ^ 63 \<longrightarrow>
        (Send_restart \<in> set (snd (snd (reconnect d env m)))
           \<longleftrightarrow> 500000000 < sint (env_now env) - sint (lastRestart m)))
   \<and> (env_now env - lastRestart m \<le>s 500000000 \<longrightarrow>
        reconnect d env m = (None, m, [Enter_reconnect]))
   \<and> (env_now env' - env_now env \<le>s 500000000 \<longrightarrow>
        \<not> (Send_restart \<in> set (snd (snd (reconnect d env m)))
           \<and> Send_restart \<in> set (snd (snd (reconnect d env' (fst (snd (reconnect d env m))))))))
   \<and> (lastRestart m' = lastRestart (fst (snd (reconnect d env m)))
        \<and> env_now env' - env_now env \<le>s 500000000 \<longrightarrow>
        \<not> (Send_restart \<in> set (snd (snd (reconnect d env m)))
           \<and> Send_restart \<in> set (snd (snd (reconnect d env' m')))))"
proof (intro conjI impI)
  show "Send_restart \<in> set (snd (snd (reconnect d env m)))
      \<longleftrightarrow> 500000000 <s env_now env - lastRestart m"
    by (rule reconnect_proceeds_iff)
next
  assume "Send_restart \<in> set (snd (snd (reconnect d env m)))"
  then show "500000000 \<le>s env_now env - lastRestart m"
    by (simp add: reconnect_proceeds_iff word_sless_alt word_sle_eq)
next
  assume "Send_restart \<in> set (snd (snd (reconnect d env m)))"
  then show "lastRestart (fst (snd (reconnect d env m))) = env_now env"
    by (simp add: reconnect_proceeds_iff reconnect_lastRestart_cases)
next
  assume "- (2 ^ 63) \<le> sint (env_now env) - sint (lastRestart m)
        \<and> sint (env_now env) - sint (lastRestart m) < 2 ^ 63"
  then have "sint (env_now env - lastRestart m) = sint (env_now env) - sint (lastRestart m)"
    by (simp add: sint_diff_in_range)
  then show "Send_restart \<in> set (snd (snd (reconnect d env m)))
           \<longleftrightarrow> 500000000 < sint (env_now env) - sint (lastRestart m)"
    by (simp add: reconnect_proceeds_iff word_sless_alt)
next
  assume "env_now env - lastRestart m \<le>s 500000000"
  then have "\<not> fst (lockRestart m (env_now env))"
    by (simp add: lockRestart_locked word_sless_alt word_sle_eq)
  then show "reconnect d env m = (None, m, [Enter_reconnect])"
    by (rule reconnect_debounced)
next
  assume "env_now env' - env_now env \<le>s 500000000"
  then show "\<not> (Send_restart \<in> set (snd (snd (reconnect d env m)))
           \<and> Send_restart \<in> set (snd (snd (reconnect d env' (fst (snd (reconnect d env m)))))))"
    using reconnect_second_dropped [OF refl, of env' env d m d] by blast
next
  assume "lastRestart m' = lastRestart (fst (snd (reconnect d env m)))
        \<and> env_now env' - env_now env \<le>s 500000000"
  then show "\<not> (Send_restart \<in> set (snd (snd (reconnect d env m)))
           \<and> Send_restart \<in> set (snd (snd (reconnect d env' m'))))"
    using reconnect_second_dropped [of m' d env m env' d] by blast
qed

text \<open>
  A call one second after the zero \<open>lastRestart\<close>, in which every \<open>Connect\<close> fails, goes on
  and leaves \<open>lastRestart\<close> at one second; a second call on the client it leaves, 200 ms
  later, is dropped.
\<close>

theorem reconnect_debounce_witness:
  "500000000 <s env_now (demo_env 1000000000) - lastRestart demo_connected
   \<and> Send_restart \<in> set (snd (snd (reconnect demo_deps (demo_env 1000000000) demo_connected)))
   \<and> lastRestart (fst (snd (reconnect demo_deps (demo_env 1000000000) demo_connected))) =
       1000000000
   \<and> env_now (demo_env 1200000000) - env_now (demo_env 1000000000) \<le>s 500000000
   \<and> Send_restart \<notin> set (snd (snd (reconnect demo_deps (demo_env 1200000000)
        (fst (snd (reconnect demo_deps (demo_env 1000000000) demo_connected))))))
   \<and> reconnect demo_deps (demo_env 1200000000)
        (fst (snd (reconnect demo_deps (demo_env 1000000000) demo_connected))) =
       (None, fst (snd (reconnect demo_deps (demo_env 1000000000) demo_connected)),
        [Enter_reconnect])"
proof -
  let ?m = "demo_connected"
  let ?e1 = "demo_env 1000000000"
  let ?e2 = "demo_env 1200000000"
  let ?m1 = "fst (snd (reconnect demo_deps ?e1 ?m))"
  have n1: "env_now ?e1 = 1000000000" and n2: "env_now ?e2 = 1200000000"
    by (simp_all add: demo_env_def)
  have l0: "lastRestart ?m = 0" by (simp add: demo_connected_def NewClient_def)
  have a: "500000000 <s env_now ?e1 - lastRestart ?m"
    by (simp add: n1 l0 word_sless_alt)
  have w: "env_now ?e2 - env_now ?e1 \<le>s 500000000"
    by (simp add: n1 n2 word_sle_eq)
  note T = reconnect_debounce [where d = demo_deps and env = ?e1 and m = ?m and env' = ?e2
      and m' = ?m1]
  note U = reconnect_debounce [where d = demo_deps and env = ?e2 and m = ?m1 and env' = ?e2
      and m' = ?m1]
  have b: "Send_restart \<in> set (snd (snd (reconnect demo_deps ?e1 ?m)))"
    using T [THEN conjunct1] a by (rule iffD2)
  have c: "lastRestart ?m1 = 1000000000"
    using T [THEN conjunct2, THEN conjunct1, THEN mp, OF b, THEN conjunct2] by (simp only: n1)
  have d: "Send_restart \<notin> set (snd (snd (reconnect demo_deps ?e2 ?m1)))"
  proof
    assume "Send_restart \<in> set (snd (snd (reconnect demo_deps ?e2 ?m1)))"
    with b have "Send_restart \<in> set (snd (snd (reconnect demo_deps ?e1 ?m)))
        \<and> Send_restart \<in> set (snd (snd (reconnect demo_deps ?e2 ?m1)))" ..
    with T [THEN conjunct2, THEN conjunct2, THEN conjunct2, THEN conjunct2, THEN conjunct1,
        THEN mp, OF w]
    show False by (rule notE)
  qed
  have w2: "env_now ?e2 - lastRestart ?m1 \<le>s 500000000"
    using w by (simp only: c n1)
  have e: "reconnect demo_deps ?e2 ?m1 = (None, ?m1, [Enter_reconnect])"
    by (rule U [THEN conjunct2, THEN conjunct2, THEN conjunct2, THEN conjunct1, THEN mp,
          OF w2])
  show ?thesis by (intro conjI) (rule a b c w d e)+
qed

text \<open>
  C5, at an input where the code departs from it: when every \<open>Connect\<close> fails, a
  \<open>reconnect\<close> that is not debounced calls \<open>m.conn.Open\<close> six times (tries 0 to 5) before
  it returns the too-many-attempts error, with waits of 6, 8, 10, 12 and 14 seconds in
  between, although \<open>maxReconnectTries\<close> is 5.
\<close>

theorem reconnect_six_attempts:
  "maxReconnectTries = 5
   \<and> reconnect demo_deps (demo_env 1000000000) demo_connected =
       (Some Too_many_reconnect_attempts,
        demo_connected\<lparr>lastRestart := 1000000000, ratelimit := 4, disconnected := True\<rparr>,
        [Enter_reconnect, Send_restart,
         Send_emitChan \<lparr>cp_Op = 101, cp_Data = Nil_payload\<rparr>,
         After 1000000000, After 10000000,
         Conn_Open ''wss://gateway'', After 6000000000,
         Conn_Open ''wss://gateway'', After 8000000000,
         Conn_Open ''wss://gateway'', After 10000000000,
         Conn_Open ''wss://gateway'', After 12000000000,
         Conn_Open ''wss://gateway'', After 14000000000,
         Conn_Open ''wss://gateway''])
   \<and> opens (snd (snd (reconnect demo_deps (demo_env 1000000000) demo_connected))) = 6"
proof -
  have r: "reconnect demo_deps (demo_env 1000000000) demo_connected =
       (Some Too_many_reconnect_attempts,
        demo_connected\<lparr>lastRestart := 1000000000, ratelimit := 4, disconnected := True\<rparr>,
        [Enter_reconnect, Send_restart,
         Send_emitChan \<lparr>cp_Op = 101, cp_Data = Nil_payload\<rparr>,
         After 1000000000, After 10000000,
         Conn_Open ''wss://gateway'', After 6000000000,
         Conn_Open ''wss://gateway'', After 8000000000,
         Conn_Open ''wss://gateway'', After 10000000000,
         Conn_Open ''wss://gateway'', After 12000000000,
         Conn_Open ''wss://gateway'', After 14000000000,
         Conn_Open ''wss://gateway''])"
    by (simp add: reconnect_def lockRestart_def Disconnect_def Emit_def command_opcode_def
        Connect_def reconnect_loop.simps maxReconnectTries_def Second_def Millisecond_def
        demo_env_def demo_attempt_fails_def demo_connected_def NewClient_def demo_deps_def
        demo_config_def word_sless_alt)
  show ?thesis
    unfolding r by (simp add: maxReconnectTries_def)
qed

subsection \<open>The heartbeat watchdog\<close>

lemma time_Sub_in_range:
  "minDuration \<le> t - u \<Longrightarrow> t - u \<le> maxDuration \<Longrightarrow> time_Sub t u = t - u"
  by (simp add: time_Sub_def)

text \<open>
  C4. When the three-second timer of a beat's watchdog fires, the watchdog calls
  \<open>reconnect\<close> exactly when \<open>lastHeartbeatAck\<close> is not after the snapshot \<open>last_ack\<close>: then
  its result is that of \<open>reconnect\<close>. Otherwise it only sets \<open>heartbeatLatency\<close> to
  \<open>lastHeartbeatAck.Sub(sent)\<close>, which is the difference \<open>lastHeartbeatAck - sent\<close>
  whenever that fits a \<open>Duration\<close>. The watchdog that a beat starts carries the value of
  \<open>lastHeartbeatAck\<close> read before the heartbeat is emitted.
\<close>

theorem watchdog_deadline:
  "(Enter_reconnect \<in> set (snd (watchdog d env Deadline last_ack sent m))
      \<longleftrightarrow> \<not> last_ack < lastHeartbeatAck m)
   \<and> (\<not> last_ack < lastHeartbeatAck m \<longrightarrow>
        watchdog d env Deadline last_ack sent m =
          (fst (snd (reconnect d env m)), After (3 * Second) # snd (snd (reconnect d env m))))
   \<and> (last_ack < lastHeartbeatAck m \<longrightarrow>
        watchdog d env Deadline last_ack sent m =
          (m\<lparr>heartbeatLatency := time_Sub (lastHeartbeatAck m) sent\<rparr>, [After (3 * Second)]))
   \<and> (last_ack < lastHeartbeatAck m \<and> minDuration \<le> lastHeartbeatAck m - sent
        \<and> lastHeartbeatAck m - sent \<le> maxDuration \<longrightarrow>
        heartbeatLatency (fst (watchdog d env Deadline last_ack sent m)) =
          lastHeartbeatAck m - sent)
   \<and> Go (Fiber_watchdog (lastHeartbeatAck m) now) \<in> set (snd (pulsate_beat d now m))"
proof (intro conjI impI)
  show "Enter_reconnect \<in> set (snd (watchdog d env Deadline last_ack sent m))
      \<longleftrightarrow> \<not> last_ack < lastHeartbeatAck m"
    using reconnect_Enter [of d env m]
    by (auto simp: watchdog_def time_After_def Let_def split: prod.splits)
next
  assume "\<not> last_ack < lastHeartbeatAck m"
  then show "watchdog d env Deadline last_ack sent m =
          (fst (snd (reconnect d env m)), After (3 * Second) # snd (snd (reconnect d env m)))"
    by (simp add: watchdog_def time_After_def Let_def split: prod.splits)
next
  assume "last_ack < lastHeartbeatAck m"
  then show "watchdog d env Deadline last_ack sent m =
          (m\<lparr>heartbeatLatency := time_Sub (lastHeartbeatAck m) sent\<rparr>, [After (3 * Second)])"
    by (simp add: watchdog_def time_After_def Let_def)
next
  assume "last_ack < lastHeartbeatAck m \<and> minDuration \<le> lastHeartbeatAck m - sent
        \<and> lastHeartbeatAck m - sent \<le> maxDuration"
  then show "heartbeatLatency (fst (watchdog d env Deadline last_ack sent m)) =
          lastHeartbeatAck m - sent"
    by (simp add: watchdog_def time_After_def Let_def time_Sub_in_range)
next
  show "Go (Fiber_watchdog (lastHeartbeatAck m) now) \<in> set (snd (pulsate_beat d now m))"
    by (simp add: pulsate_beat_def Let_def split: prod.splits)
qed

text \<open>
  With the last acknowledgement at 2000: a beat with snapshot 1000 sent at 1500 gets the
  latency 500 and no reconnect; a beat with snapshot 2000 gets a reconnect.
\<close>

theorem watchdog_deadline_witness:
  "(1000 :: int) < lastHeartbeatAck demo_acked
   \<and> heartbeatLatency (fst (watchdog demo_deps (demo_env 1000000000) Deadline 1000 1500
        demo_acked)) = 500
   \<and> Enter_reconnect \<notin> set (snd (watchdog demo_deps (demo_env 1000000000) Deadline 1000 1500
        demo_acked))
   \<and> \<not> (2000 :: int) < lastHeartbeatAck demo_acked
   \<and> Enter_reconnect \<in> set (snd (watchdog demo_deps (demo_env 1000000000) Deadline 2000 2500
        demo_acked))"
proof -
  have a: "lastHeartbeatAck demo_acked = 2000" by (simp add: demo_acked_def)
  note T = watchdog_deadline [where d = demo_deps and env = "demo_env 1000000000"
      and last_ack = 1000 and sent = 1500 and m = demo_acked and now = 0]
  note U = watchdog_deadline [where d = demo_deps and env = "demo_env 1000000000"
      and last_ack = 2000 and sent = 2500 and m = demo_acked and now = 0]
  have 1: "heartbeatLatency (fst (watchdog demo_deps (demo_env 1000000000) Deadline 1000 1500
        demo_acked)) = 500"
    using T [THEN conjunct2, THEN conjunct2, THEN conjunct2, THEN conjunct1]
    by (simp add: a minDuration_def maxDuration_def)
  have 2: "Enter_reconnect \<notin> set (snd (watchdog demo_deps (demo_env 1000000000) Deadline
        1000 1500 demo_acked))"
    using T [THEN conjunct1] by (simp add: a)
  have 3: "Enter_reconnect \<in> set (snd (watchdog demo_deps (demo_env 1000000000) Deadline
        2000 2500 demo_acked))"
    using U [THEN conjunct1] by (simp add: a)
  show ?thesis using 1 2 3 by (simp add: a)
qed

subsection \<open>The pulsator token\<close>

lemma pulsate_serviceID_nonzero: "r < 254 \<Longrightarrow> pulsate_serviceID r \<noteq> 0"
  by (simp add: pulsate_serviceID_def word_of_nat_eq_0_iff del: of_nat_Suc of_nat_add)
    presburger

lemma single_flight_Start:
  assumes "single_flight (m, active)" and "r < 254" and "pulsate_serviceID r \<notin> set active"
  shows "single_flight (pulse_step (m, active) (Start r))"
  using assms pulsate_serviceID_nonzero [OF assms(2)]
  by (auto simp: single_flight_def AllowedToStartPulsating_def Let_def)

lemma single_flight_Exit:
  assumes "single_flight (m, active)"
  shows "single_flight (pulse_step (m, active) (Exit i))"
  using assms by (auto simp: single_flight_def StopPulsating_def)

lemma single_flight_run:
  "single_flight s \<Longrightarrow> no_collision s ops \<Longrightarrow> single_flight (pulse_run s ops)"
proof (induction ops arbitrary: s)
  case Nil
  then show ?case by simp
next
  case (Cons op ops)
  obtain m active where s: "s = (m, active)" by (cases s)
  show ?case
  proof (cases op)
    case (Start r)
    with Cons.prems s have "single_flight (pulse_step s op)"
      using single_flight_Start [of m active r] by simp
    moreover from Cons.prems Start have "no_collision (pulse_step s op) ops" by simp
    ultimately show ?thesis using Cons.IH by simp
  next
    case (Exit i)
    with Cons.prems s have "single_flight (pulse_step s op)"
      using single_flight_Exit [of m active i] by simp
    moreover from Cons.prems Exit have "no_collision (pulse_step s op) ops" by simp
    ultimately show ?thesis using Cons.IH by simp
  qed
qed

text \<open>
  C7, as amended. \<open>AllowedToStartPulsating\<close> sets the token to the service id exactly when
  the token is zero, and returns whether the token then equals the service id;
  \<open>StopPulsating\<close> clears the token exactly when it equals the service id and otherwise
  leaves the client as it is. In every run from a zero token in which no pulsator draws the
  service id of an active one, at most one pulsator is active and the token is zero exactly
  when none is.
\<close>

theorem pulsator_token:
  "AllowedToStartPulsating m i =
     (pulsating m = 0 \<or> pulsating m = i, if pulsating m = 0 then m\<lparr>pulsating := i\<rparr> else m)
   \<and> fst (AllowedToStartPulsating m i) = (pulsating (snd (AllowedToStartPulsating m i)) = i)
   \<and> StopPulsating m i = (if pulsating m = i then m\<lparr>pulsating := 0\<rparr> else m)
   \<and> (pulsating m = 0 \<and> no_collision (m, []) ops \<longrightarrow>
        length (snd (pulse_run (m, []) ops)) \<le> 1
        \<and> (pulsating (fst (pulse_run (m, []) ops)) = 0 \<longleftrightarrow> snd (pulse_run (m, []) ops) = []))"
proof (intro conjI impI)
  assume a: "pulsating m = 0 \<and> no_collision (m, []) ops"
  then have "single_flight (m, [])" by (simp add: single_flight_def)
  with a have sf: "single_flight (pulse_run (m, []) ops)" by (simp add: single_flight_run)
  from sf show "length (snd (pulse_run (m, []) ops)) \<le> 1"
    by (auto simp: single_flight_def)
  from sf show "pulsating (fst (pulse_run (m, []) ops)) = 0 \<longleftrightarrow> snd (pulse_run (m, []) ops) = []"
    by (auto simp: single_flight_def)
qed (auto simp: AllowedToStartPulsating_def StopPulsating_def Let_def)

text \<open>
  Draws 6 and 41 (service ids 7 and 42): the first pulsator starts, the second is refused,
  the first returns, and a later one draws 6 again and starts.
\<close>

theorem pulsator_token_witness:
  "pulsating (NewClient demo_config (5::nat)) = 0
   \<and> no_collision (NewClient demo_config (5::nat), []) [Start 6, Start 41, Exit 7, Start 6]
   \<and> length (snd (pulse_run (NewClient demo_config (5::nat), [])
        [Start 6, Start 41, Exit 7, Start 6])) \<le> 1
   \<and> snd (pulse_run (NewClient demo_config (5::nat), []) [Start 6, Start 41, Exit 7, Start 6]) = [7]
   \<and> pulsating (fst (pulse_run (NewClient demo_config (5::nat), [])
        [Start 6, Start 41, Exit 7, Start 6])) = 7
   \<and> fst (AllowedToStartPulsating (NewClient demo_config (5::nat)) 7)"
proof -
  let ?m = "NewClient demo_config (5::nat)"
  let ?ops = "[Start 6, Start 41, Exit 7, Start 6]"
  have p: "pulsating ?m = 0" by (simp add: NewClient_def)
  have run: "pulse_run (?m, []) ?ops = (?m\<lparr>pulsating := 7\<rparr>, [7])"
    by (simp add: AllowedToStartPulsating_def StopPulsating_def pulsate_serviceID_def
        NewClient_def)
  have nc: "no_collision (?m, []) ?ops"
    by (simp add: AllowedToStartPulsating_def StopPulsating_def pulsate_serviceID_def
        NewClient_def)
  note T = pulsator_token [where m = ?m and i = 7 and ops = ?ops]
  have len: "length (snd (pulse_run (?m, []) ?ops)) \<le> 1"
    using T [THEN conjunct2, THEN conjunct2, THEN conjunct2] p nc by blast
  have al: "fst (AllowedToStartPulsating ?m 7)"
    using T [THEN conjunct1] p by simp
  have s: "snd (pulse_run (?m, []) ?ops) = [7]" by (simp only: run snd_conv)
  have t: "pulsating (fst (pulse_run (?m, []) ?ops)) = 7" by (simp only: run fst_conv) simp
  show ?thesis by (intro conjI) (rule p nc len s t al)+
qed

text \<open>
  C7 as stated fails when two pulsators draw the same service id: both pass
  \<open>AllowedToStartPulsating\<close> and are active together, and when one of them returns the token
  is zero while the other is still active.
\<close>

theorem pulsator_collision_counterexample:
  "snd (pulse_run (NewClient demo_config (5::nat), []) [Start 6, Start 6]) = [7, 7]
   \<and> pulsating (fst (pulse_run (NewClient demo_config (5::nat), [])
        [Start 6, Start 6, Exit 7])) = 0
   \<and> snd (pulse_run (NewClient demo_config (5::nat), []) [Start 6, Start 6, Exit 7]) = [7]"
  by (simp add: AllowedToStartPulsating_def StopPulsating_def pulsate_serviceID_def NewClient_def)

end
